theory Spec2Isabelle
  imports Complex_Main "HOL-Library.Word"
begin

section \<open>Python strings and the regular expressions of voice\_service.py\<close>

text \<open>
  A Python \<open>str\<close> is a sequence of Unicode code points: \<open>pystr\<close> is a list of code
  points (\<open>nat\<close>), so \<open>length\<close> counts what \<open>len\<close> counts and a Chinese keyword of
  two characters is a list of two numbers. The literals of the source are written by
  their code points.
\<close>

type_synonym pystr = "nat list"

text \<open>
  \<open>\d\<close> in a \<open>str\<close> pattern, \<open>int()\<close> and \<open>float()\<close> accept every character of
  the Unicode category Nd. The category (Unicode 14, the table of CPython 3.11) is 66
  blocks of ten consecutive code points with the values 0..9; the table lists the first
  code point of each block.
\<close>

definition nd_block_starts :: "nat list" where
  "nd_block_starts =
    [0x30, 0x660, 0x6F0, 0x7C0, 0x966, 0x9E6, 0xA66, 0xAE6, 0xB66, 0xBE6, 0xC66, 0xCE6,
     0xD66, 0xDE6, 0xE50, 0xED0, 0xF20, 0x1040, 0x1090, 0x17E0, 0x1810, 0x1946, 0x19D0,
     0x1A80, 0x1A90, 0x1B50, 0x1BB0, 0x1C40, 0x1C50, 0xA620, 0xA8D0, 0xA900, 0xA9D0,
     0xA9F0, 0xAA50, 0xABF0, 0xFF10, 0x104A0, 0x10D30, 0x11066, 0x110F0, 0x11136,
     0x111D0, 0x112F0, 0x11450, 0x114D0, 0x11650, 0x116C0, 0x11730, 0x118E0, 0x11950,
     0x11C50, 0x11D50, 0x11DA0, 0x16A60, 0x16AC0, 0x16B50, 0x1D7CE, 0x1D7D8, 0x1D7E2,
     0x1D7EC, 0x1D7F6, 0x1E140, 0x1E2F0, 0x1E950, 0x1FBF0]"

definition digit_value :: "nat \<Rightarrow> nat option" where
  "digit_value c = map_option (\<lambda>s. c - s) (find (\<lambda>s. s \<le> c \<and> c < s + 10) nd_block_starts)"

definition is_decimal :: "nat \<Rightarrow> bool" where
  "is_decimal c = (digit_value c \<noteq> None)"

text \<open>
  \<open>int(s)\<close> for a string of decimal digits (the only strings the source passes).
  CPython 3.11 raises for a string of more than 4300 digits; such strings are outside
  the model.
\<close>

definition py_int :: "pystr \<Rightarrow> nat" where
  "py_int s = fold (\<lambda>c acc. acc * 10 + (case digit_value c of Some d \<Rightarrow> d | None \<Rightarrow> 0)) s 0"

text \<open>
  \<open>float(s)\<close> for a string \<open>digits\<close> or \<open>digits.digits\<close> (what the amount patterns
  capture). The value is the exact decimal value as a rational: the rounding of
  \<open>float\<close> to binary64, and its overflow to infinity, are not part of the model.
\<close>

definition py_float :: "pystr \<Rightarrow> rat" where
  "py_float s =
     (let ip = takeWhile (\<lambda>c. c \<noteq> 0x2E) s;
          fp = drop 1 (dropWhile (\<lambda>c. c \<noteq> 0x2E) s)
      in of_nat (py_int ip) + of_nat (py_int fp) / 10 ^ length fp)"

text \<open>
  \<open>str.lower()\<close>: modelled on the ASCII letters; a code point outside ASCII is kept.
  No keyword, destination or pattern of the classifier holds a cased character.
\<close>

definition py_lower :: "pystr \<Rightarrow> pystr" where
  "py_lower s = map (\<lambda>c. if 0x41 \<le> c \<and> c \<le> 0x5A then c + 0x20 else c) s"

text \<open>\<open>k in s\<close> for strings: \<open>k\<close> occurs in \<open>s\<close> as a contiguous substring.\<close>

fun startswith :: "pystr \<Rightarrow> pystr \<Rightarrow> bool" where
  "startswith s [] = True"
| "startswith [] (k # ks) = False"
| "startswith (c # cs) (k # ks) = (c = k \<and> startswith cs ks)"

fun py_in :: "pystr \<Rightarrow> pystr \<Rightarrow> bool" where
  "py_in k [] = (k = [])"
| "py_in k (c # cs) = (startswith (c # cs) k \<or> py_in k cs)"

subsection \<open>A backtracking matcher for the patterns of the source\<close>

text \<open>
  The patterns of the source use a character class (\<open>\d\<close>, a literal character, or
  \<open>.\<close>, which matches everything but a newline), concatenation, the greedy \<open>+\<close> and
  \<open>*\<close> on one class, the greedy \<open>?\<close>, and one capturing group. \<open>rmatch r s\<close> lists,
  in the order in which Python's backtracking matcher tries them, every way \<open>r\<close> matches
  at the start of \<open>s\<close>: the text captured by the group (if the group took part) and the
  rest of \<open>s\<close> after the match. The first element is the match Python reports.
\<close>

datatype cclass = Digit | Lit nat | AnyChar

fun in_class :: "cclass \<Rightarrow> nat \<Rightarrow> bool" where
  "in_class Digit c = is_decimal c"
| "in_class (Lit l) c = (c = l)"
| "in_class AnyChar c = (c \<noteq> 0x0A)"

datatype regex =
    Ch cclass
  | Cat regex regex
  | Opt regex
  | Plus cclass
  | Star cclass
  | Grp regex

fun star_rests :: "cclass \<Rightarrow> pystr \<Rightarrow> pystr list" where
  "star_rests cl [] = [[]]"
| "star_rests cl (x # xs) = (if in_class cl x then star_rests cl xs @ [x # xs] else [x # xs])"

fun rmatch :: "regex \<Rightarrow> pystr \<Rightarrow> (pystr option \<times> pystr) list" where
  "rmatch (Ch cl) s = (case s of [] \<Rightarrow> [] | x # xs \<Rightarrow> if in_class cl x then [(None, xs)] else [])"
| "rmatch (Cat a b) s =
     concat (map (\<lambda>(g1, s1). map (\<lambda>(g2, s2). (case g2 of None \<Rightarrow> g1 | Some g \<Rightarrow> Some g, s2))
                                  (rmatch b s1)) (rmatch a s))"
| "rmatch (Opt a) s = rmatch a s @ [(None, s)]"
| "rmatch (Plus cl) s =
     (case s of [] \<Rightarrow> [] | x # xs \<Rightarrow> if in_class cl x then map (Pair None) (star_rests cl xs) else [])"
| "rmatch (Star cl) s = map (Pair None) (star_rests cl s)"
| "rmatch (Grp a) s = map (\<lambda>(g, s'). (Some (take (length s - length s') s), s')) (rmatch a s)"

text \<open>\<open>re.search\<close>: the first match at the leftmost position that has one.\<close>

fun search :: "regex \<Rightarrow> pystr \<Rightarrow> (pystr option \<times> pystr) option" where
  "search r [] = (case rmatch r [] of [] \<Rightarrow> None | m # _ \<Rightarrow> Some m)"
| "search r (x # xs) = (case rmatch r (x # xs) of [] \<Rightarrow> search r xs | m # _ \<Rightarrow> Some m)"

text \<open>\<open>match.group(1)\<close>, and the entry \<open>re.findall\<close> gives for a pattern with one group.\<close>

definition group1 :: "pystr option \<times> pystr \<Rightarrow> pystr" where
  "group1 m = (case fst m of None \<Rightarrow> [] | Some g \<Rightarrow> g)"

text \<open>
  \<open>re.findall\<close>: the matches from left to right, without overlap. \<open>findall_skip r k s\<close>
  scans \<open>s\<close> with \<open>k\<close> characters still covered by the last match.
\<close>

fun findall_skip :: "regex \<Rightarrow> nat \<Rightarrow> pystr \<Rightarrow> pystr list" where
  "findall_skip r k [] =
     (if k = 0 then (case rmatch r [] of [] \<Rightarrow> [] | m # _ \<Rightarrow> [group1 m]) else [])"
| "findall_skip r k (x # xs) =
     (if k > 0 then findall_skip r (k - 1) xs
      else (case rmatch r (x # xs) of
              [] \<Rightarrow> findall_skip r 0 xs
            | m # _ \<Rightarrow> group1 m # findall_skip r (length xs - length (snd m)) xs))"

definition findall :: "regex \<Rightarrow> pystr \<Rightarrow> pystr list" where
  "findall r s = findall_skip r 0 s"

text \<open>The patterns, in the order of the source.\<close>

definition number :: regex where
  \<comment> \<open>\<open>\d+(?:\.\d+)?\<close>\<close>
  "number = Cat (Plus Digit) (Opt (Cat (Ch (Lit 0x2E)) (Plus Digit)))"

definition re_number_any_yuan :: regex where
  \<comment> \<open>\<open>\d+.*\<close> and U+5143 (yuan): the pattern of the add\_expense bonus\<close>
  "re_number_any_yuan = Cat (Plus Digit) (Cat (Star AnyChar) (Ch (Lit 0x5143)))"

definition re_days :: regex where
  \<comment> \<open>\<open>(\d+)\<close> and U+5929 (day)\<close>
  "re_days = Cat (Grp (Plus Digit)) (Ch (Lit 0x5929))"

definition re_budget :: regex where
  \<comment> \<open>\<open>(\d+)\<close> and U+5143 (yuan)\<close>
  "re_budget = Cat (Grp (Plus Digit)) (Ch (Lit 0x5143))"

definition amount_patterns :: "regex list" where
  \<comment> \<open>number + yuan; U+82B1 U+4E86 (spent) + number; U+8D39 U+7528 (cost) + number;
      number + U+5757 (kuai)\<close>
  "amount_patterns =
    [Cat (Grp number) (Ch (Lit 0x5143)),
     Cat (Ch (Lit 0x82B1)) (Cat (Ch (Lit 0x4E86)) (Grp number)),
     Cat (Ch (Lit 0x8D39)) (Cat (Ch (Lit 0x7528)) (Grp number)),
     Cat (Grp number) (Ch (Lit 0x5757))]"

definition re_bare_number :: regex where
  \<comment> \<open>\<open>(\d+(?:\.\d+)?)\<close>\<close>
  "re_bare_number = Grp number"

section \<open>VoiceCommandProcessor: the rule-based fallback\<close>

datatype intent = create_plan | modify_plan | add_expense | query_plan | general

datatype category = entertainment | food | accommodation | transportation | shopping

text \<open>
  A Python \<open>dict\<close> keeps its keys in insertion order, and both \<open>max\<close> over the scores
  and the scan of the category table depend on that order: a dict is an association
  list. Assigning to a key that is present keeps its place; a new key goes last.
\<close>

fun dict_set :: "('k \<times> 'v) list \<Rightarrow> 'k \<Rightarrow> 'v \<Rightarrow> ('k \<times> 'v) list" where
  "dict_set [] k v = [(k, v)]"
| "dict_set ((k', v') # kvs) k v =
     (if k' = k then (k, v) # kvs else (k', v') # dict_set kvs k v)"

definition dict_get :: "('k \<times> 'v) list \<Rightarrow> 'k \<Rightarrow> 'v \<Rightarrow> 'v" where
  "dict_get d k dflt = (case map_of d k of None \<Rightarrow> dflt | Some v \<Rightarrow> v)"

text \<open>\<open>max(xs, key=f)\<close> on a non-empty sequence: the first element with the largest key.\<close>

fun py_max_from :: "('a \<Rightarrow> 'b::linorder) \<Rightarrow> 'a \<Rightarrow> 'a list \<Rightarrow> 'a" where
  "py_max_from key best [] = best"
| "py_max_from key best (x # xs) = py_max_from key (if key best < key x then x else best) xs"

definition intent_keywords :: "(intent \<times> pystr list) list" where
  "intent_keywords =
    [(create_plan,
       [[0x521B, 0x5EFA], [0x5236, 0x5B9A], [0x89C4, 0x5212], [0x5B89, 0x6392],
        [0x8BA1, 0x5212], [0x65C5, 0x6E38], [0x65C5, 0x884C], [0x53BB]]),
     (modify_plan,
       [[0x4FEE, 0x6539], [0x66F4, 0x6539], [0x8C03, 0x6574], [0x53D8, 0x66F4],
        [0x6539, 0x53D8]]),
     (add_expense,
       [[0x82B1, 0x8D39], [0x8D39, 0x7528], [0x5F00, 0x9500], [0x652F, 0x51FA],
        [0x6D88, 0x8D39], [0x4E70], [0x4ED8], [0x82B1, 0x4E86], [0x5143]]),
     (query_plan,
       [[0x67E5, 0x770B], [0x663E, 0x793A], [0x544A, 0x8BC9, 0x6211],
        [0x4EC0, 0x4E48, 0x65F6, 0x5019], [0x54EA, 0x91CC], [0x600E, 0x4E48]]),
     (general,
       [[0x4F60, 0x597D], [0x8C22, 0x8C22], [0x518D, 0x89C1], [0x5E2E, 0x52A9]])]"

definition classify_destinations :: "pystr list" where
  \<comment> \<open>Beijing, Shanghai, Guangzhou, Shenzhen, Hangzhou, Chengdu, Xi'an, Nanjing, Japan,
      Korea, Thailand\<close>
  "classify_destinations =
    [[0x5317, 0x4EAC], [0x4E0A, 0x6D77], [0x5E7F, 0x5DDE], [0x6DF1, 0x5733],
     [0x676D, 0x5DDE], [0x6210, 0x90FD], [0x897F, 0x5B89], [0x5357, 0x4EAC],
     [0x65E5, 0x672C], [0x97E9, 0x56FD], [0x6CF0, 0x56FD]]"

definition travel_words :: "pystr list" where
  "travel_words = [[0x65C5, 0x6E38], [0x65C5, 0x884C], [0x53BB], [0x73A9]]"

text \<open>The loop over \<open>intent_keywords\<close>: one point per keyword found, an intent with no
  point gets no entry.\<close>

definition keyword_scores :: "pystr \<Rightarrow> (intent \<times> nat) list" where
  "keyword_scores text_lower =
     fold (\<lambda>(i, keywords) intent_scores.
             (let score = length (filter (\<lambda>keyword. py_in keyword text_lower) keywords)
              in if score > 0 then dict_set intent_scores i score else intent_scores))
          intent_keywords []"

definition classify_intent_rule_based :: "pystr \<Rightarrow> intent" where
  "classify_intent_rule_based text =
     (let text_lower = py_lower text;
          s0 = keyword_scores text_lower;
          s1 = (if search re_number_any_yuan text_lower \<noteq> None
                then dict_set s0 add_expense (dict_get s0 add_expense 0 + 3) else s0);
          s2 = (if list_ex (\<lambda>dest. py_in dest text_lower) classify_destinations
                   \<and> list_ex (\<lambda>word. py_in word text_lower) travel_words
                then dict_set s1 create_plan (dict_get s1 create_plan 0 + 2) else s1)
      in case s2 of
           [] \<Rightarrow> general
         | (i, _) # rest \<Rightarrow> py_max_from (\<lambda>k. dict_get s2 k 0) i (map fst rest))"

text \<open>
  The entities: a dict with the keys destination, days, budget, amount and category, a
  key being absent or holding a value of its own type.
\<close>

record entities =
  destination :: "pystr option"
  days :: "nat option"
  budget :: "nat option"
  amount :: "rat option"
  category :: "category option"

definition no_entities :: entities where
  "no_entities = \<lparr>destination = None, days = None, budget = None, amount = None,
     category = None\<rparr>"

definition extract_destinations :: "pystr list" where
  "extract_destinations =
    [[0x5317, 0x4EAC], [0x4E0A, 0x6D77], [0x5E7F, 0x5DDE], [0x6DF1, 0x5733],
     [0x676D, 0x5DDE], [0x6210, 0x90FD], [0x897F, 0x5B89], [0x5357, 0x4EAC]]"

definition categories :: "(pystr \<times> category) list" where
  "categories =
    [([0x95E8, 0x7968], entertainment), ([0x666F, 0x70B9], entertainment),
     ([0x6E38, 0x4E50], entertainment), ([0x73A9], entertainment),
     ([0x535A, 0x7269, 0x9986], entertainment), ([0x516C, 0x56ED], entertainment),
     ([0x6F14, 0x51FA], entertainment), ([0x7535, 0x5F71], entertainment),
     ([0x5403], food), ([0x9910], food), ([0x996D], food), ([0x559D], food),
     ([0x8336], food), ([0x5496, 0x5561], food), ([0x65E9, 0x9910], food),
     ([0x5348, 0x9910], food), ([0x665A, 0x9910], food), ([0x591C, 0x5BB5], food),
     ([0x5C0F, 0x5403], food),
     ([0x4F4F], accommodation), ([0x9152, 0x5E97], accommodation),
     ([0x5BBE, 0x9986], accommodation), ([0x6C11, 0x5BBF], accommodation),
     ([0x65C5, 0x5E97], accommodation), ([0x5BA2, 0x6808], accommodation),
     ([0x8F66], transportation), ([0x5730, 0x94C1], transportation),
     ([0x516C, 0x4EA4], transportation), ([0x51FA, 0x79DF], transportation),
     ([0x706B, 0x8F66], transportation), ([0x98DE, 0x673A], transportation),
     ([0x8239], transportation), ([0x7968], transportation),
     ([0x4E70], shopping), ([0x8D2D], shopping), ([0x5546, 0x5E97], shopping),
     ([0x8D85, 0x5E02], shopping), ([0x7EAA, 0x5FF5, 0x54C1], shopping),
     ([0x793C, 0x54C1], shopping)]"

text \<open>The loop over \<open>amount_patterns\<close>: the first pattern with a match gives its first
  match.\<close>

fun first_pattern_amount :: "regex list \<Rightarrow> pystr \<Rightarrow> rat option" where
  "first_pattern_amount [] text = None"
| "first_pattern_amount (pattern # patterns) text =
     (case findall pattern text of
        [] \<Rightarrow> first_pattern_amount patterns text
      | m # _ \<Rightarrow> Some (py_float m))"

definition extract_amount :: "pystr \<Rightarrow> rat option" where
  "extract_amount text =
     (case first_pattern_amount amount_patterns text of
        Some a \<Rightarrow> Some a
      | None \<Rightarrow>
          (case findall re_bare_number text of
             [] \<Rightarrow> None
           | m # ms \<Rightarrow> Some (py_float (py_max_from py_float m ms))))"

definition keyword_category :: "pystr \<Rightarrow> category option" where
  "keyword_category text = map_option snd (find (\<lambda>(keyword, c). py_in keyword text) categories)"

definition amount_category :: "rat \<Rightarrow> category" where
  "amount_category a =
     (if a > 500 then accommodation else if a > 100 then entertainment else food)"

definition extract_entities_rule_based :: "pystr \<Rightarrow> intent \<Rightarrow> entities" where
  "extract_entities_rule_based text i =
     (if i = create_plan then
        no_entities
          \<lparr>destination := find (\<lambda>dest. py_in dest text) extract_destinations,
           days := map_option (\<lambda>m. py_int (group1 m)) (search re_days text),
           budget := map_option (\<lambda>m. py_int (group1 m)) (search re_budget text)\<rparr>
      else if i = add_expense then
        (let a = extract_amount text;
             c = (case keyword_category text of
                    Some c \<Rightarrow> Some c
                  | None \<Rightarrow> map_option amount_category a)
         in no_entities\<lparr>amount := a, category := c\<rparr>)
      else no_entities)"

text \<open>
  \<open>_fallback_rule_based_processing\<close>: the intent, the fixed confidence 0.75 and the
  entities (the response text is left out).
\<close>

record command =
  cmd_intent :: intent
  cmd_confidence :: rat
  cmd_entities :: entities

definition fallback_rule_based_processing :: "pystr \<Rightarrow> command" where
  "fallback_rule_based_processing transcription =
     (let i = classify_intent_rule_based transcription
      in \<lparr>cmd_intent = i, cmd_confidence = 3 / 4,
          cmd_entities = extract_entities_rule_based transcription i\<rparr>)"

definition example_expense :: pystr where
  \<comment> \<open>the first example of the specification: U+6211 U+82B1 U+4E86 "60" U+5143 U+5403 U+996D
      (I spent 60 yuan on a meal)\<close>
  "example_expense = [0x6211, 0x82B1, 0x4E86, 0x36, 0x30, 0x5143, 0x5403, 0x996D]"

definition example_plan :: pystr where
  \<comment> \<open>the second example: U+6211 U+60F3 U+53BB U+5317 U+4EAC U+73A9 "3" U+5929 U+FF0C U+9884
      U+7B97 "2000" U+5143 (I want to go to Beijing for 3 days, budget 2000 yuan)\<close>
  "example_plan =
    [0x6211, 0x60F3, 0x53BB, 0x5317, 0x4EAC, 0x73A9, 0x33, 0x5929, 0xFF0C, 0x9884, 0x7B97,
     0x32, 0x30, 0x30, 0x30, 0x5143]"

section \<open>VoiceRecognitionService\<close>

subsection \<open>The frames of \_on\_open\<close>

type_synonym byte = "8 word"

text \<open>
  A frame is what one \<open>ws.send\<close> of the sender thread carries: the status of its header
  and the audio of its payload (the base64 text of \<open>buf\<close>, an injective encoding, is
  kept as \<open>buf\<close>; the application id and the recognition parameters are the same in
  every frame).
\<close>

record frame =
  frame_status :: nat
  frame_audio :: "byte list"

definition STATUS_FIRST_FRAME :: nat where
  "STATUS_FIRST_FRAME = 0"

definition STATUS_CONTINUE_FRAME :: nat where
  "STATUS_CONTINUE_FRAME = 1"

definition STATUS_LAST_FRAME :: nat where
  "STATUS_LAST_FRAME = 2"

definition frame_size :: nat where
  "frame_size = 1280"

text \<open>
  The loop of \<open>run\<close>, from the offset and status it has reached: the frames it sends
  from there on, in order. \<open>audio_data[a:b]\<close> is \<open>take (b - a) (drop a audio_data)\<close>.
\<close>

function run :: "byte list \<Rightarrow> nat \<Rightarrow> nat \<Rightarrow> frame list" where
  "run audio_data audio_offset status =
     (if audio_offset < length audio_data then
        (let end_offset = min (audio_offset + frame_size) (length audio_data);
             buf = take (end_offset - audio_offset) (drop audio_offset audio_data);
             status1 = (if buf = [] then STATUS_LAST_FRAME else status);
             sent = (if status1 = STATUS_FIRST_FRAME
                       then [\<lparr>frame_status = 0, frame_audio = buf\<rparr>]
                     else if status1 = STATUS_CONTINUE_FRAME
                       then [\<lparr>frame_status = 1, frame_audio = buf\<rparr>]
                     else []);
             status2 = (if status1 = STATUS_FIRST_FRAME then STATUS_CONTINUE_FRAME else status1)
         in if end_offset \<ge> length audio_data
            then sent @ [\<lparr>frame_status = 2, frame_audio = buf\<rparr>]
            else sent @ run audio_data end_offset status2)
      else [])"
  by pat_completeness auto
termination
  by (relation "measure (\<lambda>(audio_data, audio_offset, status). length audio_data - audio_offset)")
     (auto simp: frame_size_def)

declare run.simps [simp del]

definition on_open :: "byte list \<Rightarrow> frame list" where
  "on_open audio_data = run audio_data 0 STATUS_FIRST_FRAME"

subsection \<open>The session fields and \_on\_message\<close>

text \<open>
  The service object: the three credentials (a string or \<open>None\<close>) and the three fields
  of the recognition session.
\<close>

record service =
  app_id :: "pystr option"
  api_key :: "pystr option"
  api_secret :: "pystr option"
  recognition_result :: pystr
  recognition_complete :: bool
  recognition_error :: "pystr option"

text \<open>Truth value of a field that holds a string or \<open>None\<close>.\<close>

definition truthy :: "pystr option \<Rightarrow> bool" where
  "truthy v = (case v of None \<Rightarrow> False | Some s \<Rightarrow> s \<noteq> [])"

text \<open>
  What \<open>json.loads\<close> returns (numbers are the integers: code and status of the protocol
  are integers). A dict is the list of its items.
\<close>

datatype json =
    JNull
  | JBool bool
  | JInt int
  | JStr pystr
  | JArr "json list"
  | JObj "(pystr \<times> json) list"

text \<open>
  The functions of the Python runtime the handler calls, as parameters: \<open>json.loads\<close>,
  \<open>str(base64.b64decode(text), "utf8")\<close> and \<open>str()\<close> of a JSON value. A raised
  exception is \<open>Inl\<close> of its text \<open>str(e)\<close>.
\<close>

record runtime =
  json_loads :: "pystr \<Rightarrow> pystr + json"
  b64decode_utf8 :: "pystr \<Rightarrow> pystr + pystr"
  py_str :: "json \<Rightarrow> pystr"

definition asc :: "string \<Rightarrow> pystr" where
  "asc s = map of_char s"

definition type_name :: "json \<Rightarrow> pystr" where
  "type_name v = (case v of JNull \<Rightarrow> asc ''NoneType'' | JBool _ \<Rightarrow> asc ''bool''
     | JInt _ \<Rightarrow> asc ''int'' | JStr _ \<Rightarrow> asc ''str'' | JArr _ \<Rightarrow> asc ''list''
     | JObj _ \<Rightarrow> asc ''dict'')"

text \<open>
  \<open>v[k]\<close> for a string key: a \<open>KeyError\<close> or \<open>TypeError\<close> is \<open>Inl\<close> of its text,
  as CPython 3.11 words it (the key or the type name between two apostrophes, U+0027).
\<close>

definition getitem :: "json \<Rightarrow> pystr \<Rightarrow> pystr + json" where
  "getitem v k =
     (case v of
        JObj items \<Rightarrow>
          (case map_of items k of None \<Rightarrow> Inl ([0x27] @ k @ [0x27]) | Some x \<Rightarrow> Inr x)
      | JStr _ \<Rightarrow> Inl (asc ''string indices must be integers, not '' @ [0x27] @ asc ''str'' @ [0x27])
      | JArr _ \<Rightarrow> Inl (asc ''list indices must be integers or slices, not str'')
      | _ \<Rightarrow> Inl ([0x27] @ type_name v @ [0x27] @ asc '' object is not subscriptable''))"

text \<open>\<open>for x in v\<close>: the elements of a list, the keys of a dict, the characters of a
  string; anything else is not iterable.\<close>

definition py_iter :: "json \<Rightarrow> pystr + json list" where
  "py_iter v =
     (case v of
        JArr xs \<Rightarrow> Inr xs
      | JObj items \<Rightarrow> Inr (map (\<lambda>(k, _). JStr k) items)
      | JStr s \<Rightarrow> Inr (map (\<lambda>c. JStr [c]) s)
      | _ \<Rightarrow> Inl ([0x27] @ type_name v @ [0x27] @ asc '' object is not iterable''))"

definition py_bool :: "json \<Rightarrow> bool" where
  "py_bool v =
     (case v of JNull \<Rightarrow> False | JBool b \<Rightarrow> b | JInt n \<Rightarrow> n \<noteq> 0 | JStr s \<Rightarrow> s \<noteq> []
      | JArr xs \<Rightarrow> xs \<noteq> [] | JObj items \<Rightarrow> items \<noteq> [])"

text \<open>\<open>v == n\<close> for an integer \<open>n\<close>: \<open>True\<close> and \<open>False\<close> compare as 1 and 0.\<close>

definition eq_int :: "json \<Rightarrow> int \<Rightarrow> bool" where
  "eq_int v n = (case v of JInt m \<Rightarrow> m = n | JBool b \<Rightarrow> (if b then 1 else 0) = n | _ \<Rightarrow> False)"

text \<open>The inner loop \<open>for j in i["cw"]: result += j["w"]\<close> and the outer loop over
  \<open>text_ws\<close>.\<close>

fun add_words :: "json list \<Rightarrow> pystr \<Rightarrow> pystr + pystr" where
  "add_words [] result = Inr result"
| "add_words (j # js) result =
     (case getitem j (asc ''w'') of
        Inl e \<Rightarrow> Inl e
      | Inr w \<Rightarrow>
          (case w of
             JStr s \<Rightarrow> add_words js (result @ s)
           | _ \<Rightarrow> Inl (asc ''can only concatenate str (not '' @ [0x22] @ type_name w @ [0x22]
                        @ asc '') to str'')))"

fun add_segments :: "json list \<Rightarrow> pystr \<Rightarrow> pystr + pystr" where
  "add_segments [] result = Inr result"
| "add_segments (i # rest) result =
     (case getitem i (asc ''cw'') of
        Inl e \<Rightarrow> Inl e
      | Inr cw \<Rightarrow>
          (case py_iter cw of
             Inl e \<Rightarrow> Inl e
           | Inr js \<Rightarrow>
               (case add_words js result of
                  Inl e \<Rightarrow> Inl e
                | Inr r \<Rightarrow> add_segments rest r)))"

text \<open>The text of one payload: \<open>Inl\<close> when a step of the decoding raises.\<close>

definition payload_text :: "runtime \<Rightarrow> json \<Rightarrow> pystr + pystr" where
  "payload_text rt payload =
     (case getitem payload (asc ''result'') of
        Inl e \<Rightarrow> Inl e
      | Inr res \<Rightarrow>
          (case getitem res (asc ''text'') of
             Inl e \<Rightarrow> Inl e
           | Inr text \<Rightarrow>
               (case (case text of JStr t \<Rightarrow> b64decode_utf8 rt t
                      | _ \<Rightarrow> Inl (asc ''argument should be a bytes-like object or ASCII string, not ''
                                   @ [0x27] @ type_name text @ [0x27])) of
                  Inl e \<Rightarrow> Inl e
                | Inr decoded \<Rightarrow>
                    (case json_loads rt decoded of
                       Inl e \<Rightarrow> Inl e
                     | Inr text' \<Rightarrow>
                         (case getitem text' (asc ''ws'') of
                            Inl e \<Rightarrow> Inl e
                          | Inr text_ws \<Rightarrow>
                              (case py_iter text_ws of
                                 Inl e \<Rightarrow> Inl e
                               | Inr segs \<Rightarrow> add_segments segs []))))))"

definition msg_request_error :: pystr where
  "msg_request_error = [0x8BF7, 0x6C42, 0x9519, 0x8BEF, 0xFF1A]"

text \<open>
  The \<open>try\<close> block of \<open>_on_message\<close>: the new service and whether \<open>ws.close()\<close> was
  called, or \<open>Inl\<close> of the text of the exception raised (every statement that can raise
  comes before the first assignment to a field).
\<close>

definition on_message_try :: "runtime \<Rightarrow> service \<Rightarrow> pystr \<Rightarrow> pystr + service \<times> bool" where
  "on_message_try rt self message =
     (case json_loads rt message of
        Inl e \<Rightarrow> Inl e
      | Inr msg \<Rightarrow>
     (case getitem msg (asc ''header'') of
        Inl e \<Rightarrow> Inl e
      | Inr header \<Rightarrow>
     (case getitem header (asc ''code'') of
        Inl e \<Rightarrow> Inl e
      | Inr code \<Rightarrow>
     (case getitem header (asc ''status'') of
        Inl e \<Rightarrow> Inl e
      | Inr status \<Rightarrow>
        if \<not> eq_int code 0 then
          Inr (self\<lparr>recognition_error := Some (msg_request_error @ py_str rt code)\<rparr>, True)
        else
          (case (case getitem msg (asc ''payload'') of
                   Inl _ \<Rightarrow> Inr self
                 | Inr payload \<Rightarrow>
                     if py_bool payload then
                       (case payload_text rt payload of
                          Inl e \<Rightarrow> Inl e
                        | Inr result \<Rightarrow>
                            Inr (self\<lparr>recognition_result := recognition_result self @ result\<rparr>))
                     else Inr self) of
             Inl e \<Rightarrow> Inl e
           | Inr self1 \<Rightarrow>
               if eq_int status 2 then Inr (self1\<lparr>recognition_complete := True\<rparr>, True)
               else Inr (self1, False))))))"

definition on_message :: "runtime \<Rightarrow> service \<Rightarrow> pystr \<Rightarrow> service \<times> bool" where
  "on_message rt self message =
     (case on_message_try rt self message of
        Inr r \<Rightarrow> r
      | Inl e \<Rightarrow> (self\<lparr>recognition_error := Some e\<rparr>, True))"

definition on_error :: "service \<Rightarrow> pystr \<Rightarrow> service" where
  "on_error self error = self\<lparr>recognition_error := Some error\<rparr>"

text \<open>
  What the channel delivers while \<open>run_forever\<close> runs: a message, or an error with its
  text (\<open>_on_open\<close> starts the sender thread, which only sends, and \<open>_on_close\<close> only
  logs: neither touches a session field).
\<close>

datatype ws_event = Message pystr | Error pystr

definition deliver :: "runtime \<Rightarrow> service \<Rightarrow> ws_event \<Rightarrow> service" where
  "deliver rt self ev =
     (case ev of Message m \<Rightarrow> fst (on_message rt self m) | Error e \<Rightarrow> on_error self e)"

text \<open>The session after the channel has delivered \<open>evs\<close>: the state in which
  \<open>run_forever\<close> returns, when it returns.\<close>

definition run_forever :: "runtime \<Rightarrow> service \<Rightarrow> ws_event list \<Rightarrow> service" where
  "run_forever rt self evs = foldl (deliver rt) self evs"

text \<open>
  \<open>ws.run_forever()\<close> blocks for as long as the connection is open. It returns once a
  handler has called \<open>ws.close()\<close>, or once the connection has ended on the other
  side (the peer closes it, or the socket fails); a connection that stays open with
  nothing more to read keeps it blocked, and \<open>transcribe_audio\<close> with it.
\<close>

datatype ending = PeerCloses | StaysOpen

fun handler_closes :: "runtime \<Rightarrow> service \<Rightarrow> ws_event list \<Rightarrow> bool" where
  "handler_closes rt self [] = False"
| "handler_closes rt self (ev # evs) =
     ((case ev of Message m \<Rightarrow> snd (on_message rt self m) | Error e \<Rightarrow> False)
      \<or> handler_closes rt (deliver rt self ev) evs)"

definition run_forever_returns :: "runtime \<Rightarrow> service \<Rightarrow> ws_event list \<Rightarrow> ending \<Rightarrow> bool" where
  "run_forever_returns rt self evs e = (handler_closes rt self evs \<or> e = PeerCloses)"

subsection \<open>\_convert\_audio\_to\_pcm and validate\_audio\_format\<close>

text \<open>
  pydub is not code of the repository: whether the import succeeded, what
  \<open>AudioSegment.from_file\<close> returns for a format name (or for none, the auto-detection)
  and what the chain \<open>set_frame_rate(16000).set_channels(1).set_sample_width(2).raw_data\<close>
  returns are parameters; \<open>Inl\<close> is the text of the exception raised.
\<close>

record 'seg pydub =
  PYDUB_AVAILABLE :: bool
  from_file :: "string option \<Rightarrow> byte list \<Rightarrow> pystr + 'seg"
  to_pcm :: "'seg \<Rightarrow> pystr + byte list"

definition formats_to_try :: "string list" where
  "formats_to_try = [''webm'', ''wav'', ''mp3'', ''ogg'', ''mp4'']"

definition msg_no_pydub :: pystr where
  "msg_no_pydub = [0x97F3, 0x9891, 0x683C, 0x5F0F, 0x8F6C, 0x6362, 0x5E93, 0x672A, 0x5B89, 0x88C5]"

definition msg_unrecognised :: pystr where
  "msg_unrecognised = [0x65E0, 0x6CD5, 0x8BC6, 0x522B, 0x97F3, 0x9891, 0x683C, 0x5F0F]"

definition msg_convert_failed :: pystr where
  "msg_convert_failed = [0x97F3, 0x9891, 0x683C, 0x5F0F, 0x8F6C, 0x6362, 0x5931, 0x8D25, 0x3A, 0x20]"

text \<open>The loop over \<open>formats_to_try\<close>: the first format that decodes.\<close>

fun try_formats :: "'seg pydub \<Rightarrow> string list \<Rightarrow> byte list \<Rightarrow> 'seg option" where
  "try_formats p [] audio_data = None"
| "try_formats p (fmt # fmts) audio_data =
     (case from_file p (Some fmt) audio_data of
        Inr audio \<Rightarrow> Some audio
      | Inl e \<Rightarrow> try_formats p fmts audio_data)"

text \<open>The decoding: the formats in order, then the auto-detection.\<close>

definition decode :: "'seg pydub \<Rightarrow> byte list \<Rightarrow> 'seg option" where
  "decode p audio_data =
     (case try_formats p formats_to_try audio_data of
        Some audio \<Rightarrow> Some audio
      | None \<Rightarrow> (case from_file p None audio_data of Inr audio \<Rightarrow> Some audio | Inl e \<Rightarrow> None))"

text \<open>\<open>_convert_audio_to_pcm\<close>: the PCM bytes, or \<open>Inl\<close> of the text of the
  \<open>ValueError\<close> it raises.\<close>

definition convert_audio_to_pcm :: "'seg pydub \<Rightarrow> byte list \<Rightarrow> pystr + byte list" where
  "convert_audio_to_pcm p audio_data =
     (if \<not> PYDUB_AVAILABLE p then Inl msg_no_pydub
      else (case decode p audio_data of
              None \<Rightarrow> Inl (msg_convert_failed @ msg_unrecognised)
            | Some audio \<Rightarrow>
                (case to_pcm p audio of
                   Inl e \<Rightarrow> Inl (msg_convert_failed @ e)
                 | Inr pcm_data \<Rightarrow> Inr pcm_data)))"

definition validate_audio_format :: "byte list \<Rightarrow> bool" where
  "validate_audio_format audio_data =
     (if length audio_data < 44 then False
      else if take 4 audio_data = [0x52, 0x49, 0x46, 0x46]
              \<and> take 4 (drop 8 audio_data) = [0x57, 0x41, 0x56, 0x45] then True
      else True)"

subsection \<open>transcribe\_audio\<close>

datatype result =
    Success (res_text: pystr) (res_confidence: rat) (res_duration: rat)
  | Failure (res_error: pystr)

definition msg_not_configured :: pystr where
  "msg_not_configured =
    [0x8BED, 0x97F3, 0x8BC6, 0x522B, 0x670D, 0x52A1, 0x672A, 0x914D, 0x7F6E, 0xFF0C, 0x8BF7,
     0x5728, 0x8BBE, 0x7F6E, 0x4E2D, 0x914D, 0x7F6E, 0x79D1, 0x5927, 0x8BAF, 0x98DE, 0x41,
     0x50, 0x49, 0x5BC6, 0x94A5]"

definition msg_timeout :: pystr where
  "msg_timeout = [0x8BED, 0x97F3, 0x8BC6, 0x522B, 0x8D85, 0x65F6, 0xFF0C, 0x8BF7, 0x91CD, 0x8BD5]"

definition msg_failed :: pystr where
  "msg_failed = [0x8BED, 0x97F3, 0x8BC6, 0x522B, 0x5931, 0x8D25, 0x3A, 0x20]"

text \<open>\<open>str.strip()\<close>: the characters for which \<open>str.isspace\<close> holds are removed at both
  ends.\<close>

definition is_space :: "nat \<Rightarrow> bool" where
  "is_space c =
     (c \<in> set [0x9, 0xA, 0xB, 0xC, 0xD, 0x1C, 0x1D, 0x1E, 0x1F, 0x20, 0x85, 0xA0, 0x1680,
                0x2000, 0x2001, 0x2002, 0x2003, 0x2004, 0x2005, 0x2006, 0x2007, 0x2008,
                0x2009, 0x200A, 0x2028, 0x2029, 0x202F, 0x205F, 0x3000])"

definition strip :: "pystr \<Rightarrow> pystr" where
  "strip s = rev (dropWhile is_space (rev (dropWhile is_space s)))"

text \<open>
  The steps of \<open>transcribe_audio\<close> that reach outside the service, in the order in
  which it takes them: the conversion of the audio, the signed URL, the connection.
  Of the statements inside its \<open>try\<close> only the conversion is modelled as raising:
  the signing of the URL computes on strings, and \<open>run_forever\<close> hands the failures
  of the channel to \<open>_on_error\<close>.
\<close>

datatype action = ConvertAudio | CreateUrl | Connect

text \<open>
  The world of one call: pydub, the runtime of the handler, what the channel delivers,
  how the connection ends after that, and the reading of \<open>time.time()\<close> when
  \<open>run_forever\<close> returns (the source reads \<open>start_time\<close> only then).
  The clock is simulated: only \<open>time.sleep(d)\<close> moves it, by \<open>d\<close>.
\<close>

record 'seg world =
  pydub :: "'seg pydub"
  py_runtime :: runtime
  channel :: "ws_event list"
  channel_end :: ending
  clock :: rat

text \<open>
  The polling loop. The callbacks run inside \<open>run_forever\<close>, so the two flags no longer
  change while the loop polls: \<open>pending\<close> is the loop condition
  \<open>not recognition_complete and not recognition_error\<close>. The loop gives whether it
  timed out and the time at which it ended.
\<close>

function wait_loop :: "bool \<Rightarrow> rat \<Rightarrow> rat \<Rightarrow> bool \<times> rat" where
  "wait_loop pending start_time now =
     (if pending then
        (if now - start_time > 30 then (True, now)
         else wait_loop pending start_time (now + 1 / 10))
      else (False, now))"
  by pat_completeness auto
termination
  by (relation "measure (\<lambda>(pending, start_time, now). nat (\<lfloor>(start_time + 30 - now) * 10\<rfloor> + 1))")
     (auto, linarith)

declare wait_loop.simps [simp del]

text \<open>The reset of the session fields after the conversion.\<close>

definition reset_session :: "service \<Rightarrow> service" where
  "reset_session self =
     self\<lparr>recognition_result := [], recognition_complete := False, recognition_error := None\<rparr>"

text \<open>
  What a call that returns has done. \<open>transcribe_audio\<close> gives \<open>None\<close> for a call
  that does not return, because \<open>run_forever\<close> stays blocked.
\<close>

record outcome =
  returned :: result
  service_after :: service
  actions :: "action list"
  returned_at :: rat

definition transcribe_audio :: "'seg world \<Rightarrow> service \<Rightarrow> byte list \<Rightarrow> outcome option" where
  "transcribe_audio w self audio_data =
     (if \<not> truthy (api_key self) \<or> \<not> truthy (api_secret self) \<or> \<not> truthy (app_id self) then
        Some \<lparr>returned = Failure msg_not_configured, service_after = self, actions = [],
              returned_at = clock w\<rparr>
      else
        (case convert_audio_to_pcm (pydub w) audio_data of
           Inl e \<Rightarrow>
             Some \<lparr>returned = Failure (msg_failed @ e), service_after = self,
                   actions = [ConvertAudio], returned_at = clock w\<rparr>
         | Inr pcm_audio_data \<Rightarrow>
             (let self0 = reset_session self in
              if \<not> run_forever_returns (py_runtime w) self0 (channel w) (channel_end w)
              then None
              else
                (let self1 = run_forever (py_runtime w) self0 (channel w);
                     pending = (\<not> recognition_complete self1
                                \<and> \<not> truthy (recognition_error self1));
                     (timed_out, now) = wait_loop pending (clock w) (clock w);
                     res =
                       (if timed_out then Failure msg_timeout
                        else if truthy (recognition_error self1)
                          then Failure (msg_failed @ the (recognition_error self1))
                        else Success (strip (recognition_result self1)) (23 / 25)
                               (of_nat (length audio_data) / 32000))
                 in Some \<lparr>returned = res, service_after = self1,
                          actions = [ConvertAudio, CreateUrl, Connect], returned_at = now\<rparr>))))"

subsection \<open>Concrete collaborators for the examples\<close>

text \<open>
  A runtime for two texts: \<open>json.loads\<close> of the text \<open>envelope\<close> is a message with
  code 0, status 2 and a payload, and of the text \<open>words\<close> the decoded payload with the
  single word \<open>" ok"\<close>; base64 decoding gives \<open>words\<close> for the payload's text.
\<close>

definition stub_runtime :: runtime where
  "stub_runtime =
     \<lparr>json_loads = (\<lambda>s.
        if s = asc ''envelope'' then
          Inr (JObj [(asc ''header'', JObj [(asc ''code'', JInt 0), (asc ''status'', JInt 2)]),
                     (asc ''payload'',
                       JObj [(asc ''result'', JObj [(asc ''text'', JStr (asc ''d29yZHM=''))])])])
        else if s = asc ''words'' then
          Inr (JObj [(asc ''ws'',
                 JArr [JObj [(asc ''cw'', JArr [JObj [(asc ''w'', JStr (asc '' ok''))]])]])])
        else Inl (asc ''Expecting value'')),
      b64decode_utf8 = (\<lambda>s. if s = asc ''d29yZHM='' then Inr (asc ''words'')
                             else Inl (asc ''Incorrect padding'')),
      py_str = (\<lambda>v. case v of JInt n \<Rightarrow> (if n = 10165 then asc ''10165'' else asc ''0'')
                          | _ \<Rightarrow> asc ''None'')\<rparr>"

text \<open>A pydub that is installed and reads every input as raw PCM samples.\<close>

definition raw_pydub :: "(byte list) pydub" where
  "raw_pydub = \<lparr>PYDUB_AVAILABLE = True, from_file = (\<lambda>fmt data. Inr data),
     to_pcm = (\<lambda>audio. Inr audio)\<rparr>"

text \<open>A pydub that is installed and decodes nothing.\<close>

definition deaf_pydub :: "(byte list) pydub" where
  "deaf_pydub = \<lparr>PYDUB_AVAILABLE = True,
     from_file = (\<lambda>fmt data. Inl (asc ''Decoding failed'')),
     to_pcm = (\<lambda>audio. Inr audio)\<rparr>"

text \<open>A service with the three credentials configured and a fresh session.\<close>

definition configured_service :: service where
  "configured_service =
     \<lparr>app_id = Some (asc ''12345678''), api_key = Some (asc ''key''),
      api_secret = Some (asc ''secret''), recognition_result = [],
      recognition_complete = False, recognition_error = None\<rparr>"

text \<open>A session that has completed with the transcript \<open>hello\<close>, and one that has
  failed with an error.\<close>

definition finished_session :: service where
  "finished_session =
     configured_service\<lparr>recognition_result := asc ''hello'', recognition_complete := True\<rparr>"

definition failed_session :: service where
  "failed_session = configured_service\<lparr>recognition_error := Some (asc ''timed out'')\<rparr>"

text \<open>
  A world in which the peer closes the connection without a message or an error, one in
  which the connection stays open and silent, and one in which the channel delivers the
  message \<open>envelope\<close> on a connection that the peer leaves open.
\<close>

definition silent_world :: "(byte list) world" where
  "silent_world = \<lparr>pydub = raw_pydub, py_runtime = stub_runtime, channel = [],
     channel_end = PeerCloses, clock = 0\<rparr>"

definition mute_world :: "(byte list) world" where
  "mute_world = \<lparr>pydub = raw_pydub, py_runtime = stub_runtime, channel = [],
     channel_end = StaysOpen, clock = 0\<rparr>"

definition answering_world :: "(byte list) world" where
  "answering_world =
     \<lparr>pydub = raw_pydub, py_runtime = stub_runtime, channel = [Message (asc ''envelope'')],
      channel_end = StaysOpen, clock = 0\<rparr>"

section \<open>Evaluation of the definitions on concrete inputs\<close>

lemmas text_defs =
  digit_value_def nd_block_starts_def is_decimal_def py_int_def py_float_def py_lower_def
  group1_def findall_def number_def re_number_any_yuan_def re_days_def re_budget_def
  amount_patterns_def re_bare_number_def dict_get_def intent_keywords_def
  classify_destinations_def travel_words_def keyword_scores_def
  classify_intent_rule_based_def no_entities_def extract_destinations_def categories_def
  extract_amount_def keyword_category_def amount_category_def
  extract_entities_rule_based_def fallback_rule_based_processing_def Let_def

lemmas handler_defs =
  on_message_def on_message_try_def stub_runtime_def getitem_def py_iter_def py_bool_def
  eq_int_def payload_text_def asc_def configured_service_def finished_session_def
  failed_session_def

lemmas service_defs =
  raw_pydub_def convert_audio_to_pcm_def decode_def formats_to_try_def truthy_def
  reset_session_def run_forever_def run_forever_returns_def deliver_def silent_world_def
  mute_world_def answering_world_def

section \<open>The rule-based fallback\<close>

subsection \<open>The two examples of the specification\<close>

text \<open>
  Claim C1, as the code has it. For the first example (I spent 60 yuan on a meal) the
  rule-based processor returns the intent add\_expense with amount 60 and category food.
  For the second (I want to go to Beijing for 3 days, budget 2000 yuan) add\_expense
  scores 4 (the keyword U+5143 and the bonus of 3 for a number followed by U+5143) and
  create\_plan scores 3 (the keyword U+53BB and the bonus of 2 for a destination with a
  travel word): the processor returns add\_expense, with amount 2000 and category
  entertainment (the keyword U+73A9), and no destination, days or budget. The entities
  destination Beijing, days 3 and budget 2000 are what the extractor gives for this text
  when it is called with the intent create\_plan.
\<close>

theorem rule_based_examples:
  "fallback_rule_based_processing example_expense =
     \<lparr>cmd_intent = add_expense, cmd_confidence = 3 / 4,
      cmd_entities = no_entities\<lparr>amount := Some 60, category := Some food\<rparr>\<rparr>
   \<and> fallback_rule_based_processing example_plan =
     \<lparr>cmd_intent = add_expense, cmd_confidence = 3 / 4,
      cmd_entities = no_entities\<lparr>amount := Some 2000, category := Some entertainment\<rparr>\<rparr>
   \<and> extract_entities_rule_based example_plan create_plan =
     no_entities\<lparr>destination := Some [0x5317, 0x4EAC], days := Some 3, budget := Some 2000\<rparr>"
  by (simp add: text_defs example_plan_def example_expense_def)

text \<open>
  Claim C1 as stated fails on the second example: its intent is not create\_plan, and
  the entities carry no destination.
\<close>

theorem example_plan_counterexample:
  "cmd_intent (fallback_rule_based_processing example_plan) \<noteq> create_plan
   \<and> destination (cmd_entities (fallback_rule_based_processing example_plan)) = None"
  by (simp add: text_defs example_plan_def)

subsection \<open>The category of an expense\<close>

text \<open>
  Claim C7. For every text that contains both the keyword U+95E8 U+7968 (admission
  ticket) and the keyword U+8F66 (vehicle), the extraction for add\_expense gives the
  category entertainment: the ticket keyword is the first entry of the table and the
  first keyword found decides.
\<close>

theorem category_priority:
  assumes "py_in [0x95E8, 0x7968] text" and "py_in [0x8F66] text"
  shows "category (extract_entities_rule_based text add_expense) = Some entertainment
     \<and> category (extract_entities_rule_based text add_expense) \<noteq> Some transportation"
  using assms
  by (simp add: extract_entities_rule_based_def keyword_category_def categories_def Let_def)

text \<open>The text U+8F66 U+95E8 U+7968, in which the vehicle keyword comes first.\<close>

theorem category_priority_witness:
  "py_in [0x95E8, 0x7968] [0x8F66, 0x95E8, 0x7968] \<and> py_in [0x8F66] [0x8F66, 0x95E8, 0x7968]
   \<and> category (extract_entities_rule_based [0x8F66, 0x95E8, 0x7968] add_expense)
       = Some entertainment"
  using category_priority [of "[0x8F66, 0x95E8, 0x7968]"] by simp

lemma keyword_category_None:
  "list_all (\<lambda>(keyword, c). \<not> py_in keyword text) categories \<Longrightarrow> keyword_category text = None"
  unfolding keyword_category_def by (auto simp: find_None_iff list_all_iff)

text \<open>
  Claim C9. When no keyword of the category table occurs in the text, the category of
  an add\_expense extraction depends on the extracted amount alone: above 500 it is
  accommodation, above 100 (and at most 500) entertainment, otherwise food; with no
  amount there is no category.
\<close>

theorem category_from_amount:
  assumes "list_all (\<lambda>(keyword, c). \<not> py_in keyword text) categories"
  shows "category (extract_entities_rule_based text add_expense) =
    (case amount (extract_entities_rule_based text add_expense) of
       None \<Rightarrow> None
     | Some a \<Rightarrow> Some (if a > 500 then accommodation
                       else if a > 100 then entertainment else food))"
  using assms
  by (simp add: keyword_category_None extract_entities_rule_based_def Let_def
      amount_category_def split: option.splits)

text \<open>The texts U+82B1 U+4E86 (spent) followed by 800, by 300 and by 50, and the text
  U+4F60 U+597D (hello), which has no amount.\<close>

theorem category_from_amount_witness:
  "list_all (\<lambda>(keyword, c). \<not> py_in keyword [0x82B1, 0x4E86, 0x38, 0x30, 0x30]) categories
   \<and> category (extract_entities_rule_based [0x82B1, 0x4E86, 0x38, 0x30, 0x30] add_expense)
       = Some accommodation
   \<and> category (extract_entities_rule_based [0x82B1, 0x4E86, 0x33, 0x30, 0x30] add_expense)
       = Some entertainment
   \<and> category (extract_entities_rule_based [0x82B1, 0x4E86, 0x35, 0x30] add_expense)
       = Some food
   \<and> category (extract_entities_rule_based [0x4F60, 0x597D] add_expense) = None"
  using category_from_amount [of "[0x82B1, 0x4E86, 0x38, 0x30, 0x30]"]
    category_from_amount [of "[0x82B1, 0x4E86, 0x33, 0x30, 0x30]"]
    category_from_amount [of "[0x82B1, 0x4E86, 0x35, 0x30]"]
    category_from_amount [of "[0x4F60, 0x597D]"]
  by (simp add: text_defs)

subsection \<open>The amount of an expense\<close>

lemma py_max_from_in: "py_max_from key b xs \<in> set (b # xs)"
  by (induction xs arbitrary: b) (auto split: if_splits)

lemma py_max_from_ge: "key b \<le> key (py_max_from key b xs)"
proof (induction xs arbitrary: b)
  case Nil
  then show ?case by simp
next
  case (Cons x xs)
  have "key b \<le> key (if key b < key x then x else b)" by (simp add: less_imp_le)
  also have "\<dots> \<le> key (py_max_from key (if key b < key x then x else b) xs)"
    by (rule Cons.IH)
  finally show ?case by simp
qed

lemma py_max_from_upper: "y \<in> set xs \<Longrightarrow> key y \<le> key (py_max_from key b xs)"
proof (induction xs arbitrary: b)
  case Nil
  then show ?case by simp
next
  case (Cons x xs)
  show ?case
  proof (cases "y = x")
    case True
    have "key x \<le> key (if key b < key x then x else b)" by (simp add: not_less)
    also have "\<dots> \<le> key (py_max_from key (if key b < key x then x else b) xs)"
      by (rule py_max_from_ge)
    finally show ?thesis using True by simp
  next
    case False
    with Cons.prems have "y \<in> set xs" by simp
    then show ?thesis using Cons.IH by simp
  qed
qed

lemma py_max_from_Max: "key (py_max_from key b xs) = Max (key ` set (b # xs))"
proof (rule sym, rule Max_eqI)
  show "finite (key ` set (b # xs))" by simp
next
  fix v assume "v \<in> key ` set (b # xs)"
  then obtain y where y: "y \<in> set (b # xs)" "v = key y" by auto
  show "v \<le> key (py_max_from key b xs)"
  proof (cases "y = b")
    case True
    then show ?thesis using y py_max_from_ge[of key b xs] by simp
  next
    case False
    then have "y \<in> set xs" using y by simp
    then show ?thesis using y py_max_from_upper by simp
  qed
next
  show "key (py_max_from key b xs) \<in> key ` set (b # xs)"
    using py_max_from_in[of key b xs] by blast
qed

lemma first_pattern_amount_None:
  "list_all (\<lambda>p. findall p text = []) ps \<Longrightarrow> first_pattern_amount ps text = None"
  by (induction ps) auto

lemma first_pattern_amount_Some:
  "i < length ps \<Longrightarrow> \<forall>j<i. findall (ps ! j) text = [] \<Longrightarrow> findall (ps ! i) text = m # ms
   \<Longrightarrow> first_pattern_amount ps text = Some (py_float m)"
proof (induction ps arbitrary: i)
  case Nil
  then show ?case by simp
next
  case (Cons p ps)
  show ?case
  proof (cases i)
    case 0
    with Cons.prems show ?thesis by simp
  next
    case (Suc k)
    with Cons.prems have p: "findall p text = []" by auto
    have "k < length ps" using Suc Cons.prems by simp
    moreover have "\<forall>j<k. findall (ps ! j) text = []"
      using Cons.prems(2) Suc by auto
    moreover have "findall (ps ! k) text = m # ms" using Cons.prems(3) Suc by simp
    ultimately have "first_pattern_amount ps text = Some (py_float m)" by (rule Cons.IH)
    with p show ?thesis by simp
  qed
qed

lemma amount_add_expense:
  "amount (extract_entities_rule_based text add_expense) = extract_amount text"
  by (simp add: extract_entities_rule_based_def Let_def)

text \<open>
  Claim C8. When none of the four amount patterns has a match in the text and the text
  has a bare number, the amount of an add\_expense extraction is the largest of the bare
  numbers of the text. When a pattern has a match and no pattern before it in the list
  has one, the amount is the first match of that pattern.
\<close>

theorem amount_patterns_then_largest_number:
  "(list_all (\<lambda>p. findall p text = []) amount_patterns \<and> findall re_bare_number text \<noteq> []
      \<longrightarrow> amount (extract_entities_rule_based text add_expense)
            = Some (Max (py_float ` set (findall re_bare_number text))))
   \<and> (i < length amount_patterns \<and> (\<forall>j<i. findall (amount_patterns ! j) text = [])
        \<and> findall (amount_patterns ! i) text = m # ms
      \<longrightarrow> amount (extract_entities_rule_based text add_expense) = Some (py_float m))"
proof (intro conjI impI)
  assume a: "list_all (\<lambda>p. findall p text = []) amount_patterns
    \<and> findall re_bare_number text \<noteq> []"
  then obtain b bs where b: "findall re_bare_number text = b # bs"
    by (cases "findall re_bare_number text") auto
  show "amount (extract_entities_rule_based text add_expense)
            = Some (Max (py_float ` set (findall re_bare_number text)))"
    using a
    by (simp add: amount_add_expense extract_amount_def first_pattern_amount_None b
        py_max_from_Max)
next
  assume a: "i < length amount_patterns \<and> (\<forall>j<i. findall (amount_patterns ! j) text = [])
        \<and> findall (amount_patterns ! i) text = m # ms"
  then have "first_pattern_amount amount_patterns text = Some (py_float m)"
    using first_pattern_amount_Some by blast
  then show "amount (extract_entities_rule_based text add_expense) = Some (py_float m)"
    by (simp add: amount_add_expense extract_amount_def)
qed

text \<open>
  The text \<open>3 12\<close> has no match of an amount pattern and the bare numbers 3 and 12;
  in the first example the first pattern (number and U+5143) matches \<open>60\<close>.
\<close>

theorem amount_patterns_then_largest_number_witness:
  "list_all (\<lambda>p. findall p [0x33, 0x20, 0x31, 0x32] = []) amount_patterns
   \<and> findall re_bare_number [0x33, 0x20, 0x31, 0x32] = [[0x33], [0x31, 0x32]]
   \<and> amount (extract_entities_rule_based [0x33, 0x20, 0x31, 0x32] add_expense) = Some 12
   \<and> findall (amount_patterns ! 0) example_expense = [[0x36, 0x30]]
   \<and> amount (extract_entities_rule_based example_expense add_expense) = Some 60"
  using amount_patterns_then_largest_number [of "[0x33, 0x20, 0x31, 0x32]" 0 "[]" "[]"]
    amount_patterns_then_largest_number [of example_expense 0 "[0x36, 0x30]" "[]"]
  by (simp add: text_defs example_expense_def)

section \<open>The frames of the sender thread\<close>

lemma run_unfold:
  assumes "audio_offset < length audio_data" and "status = 0 \<or> status = 1"
  shows "run audio_data audio_offset status =
     (if length audio_data \<le> audio_offset + 1280
      then [\<lparr>frame_status = status, frame_audio = drop audio_offset audio_data\<rparr>,
            \<lparr>frame_status = 2, frame_audio = drop audio_offset audio_data\<rparr>]
      else \<lparr>frame_status = status, frame_audio = take 1280 (drop audio_offset audio_data)\<rparr>
             # run audio_data (audio_offset + 1280) 1)"
  using assms
  by (subst run.simps)
     (auto simp: Let_def frame_size_def STATUS_FIRST_FRAME_def STATUS_CONTINUE_FRAME_def
        STATUS_LAST_FRAME_def min_def)

lemma run_shape:
  "audio_offset < length audio_data \<Longrightarrow> status = 0 \<or> status = 1 \<Longrightarrow>
   \<exists>pre fin. run audio_data audio_offset status = pre @ [fin]
     \<and> frame_status fin = 2
     \<and> map frame_status pre = status # replicate (length pre - 1) 1
     \<and> length pre = (length audio_data - audio_offset + 1279) div 1280
     \<and> concat (map frame_audio pre) = drop audio_offset audio_data"
proof (induction "length audio_data - audio_offset" arbitrary: audio_offset status
    rule: less_induct)
  case less
  show ?case
  proof (cases "length audio_data \<le> audio_offset + 1280")
    case True
    let ?pre = "[\<lparr>frame_status = status, frame_audio = drop audio_offset audio_data\<rparr>]"
    let ?fin = "\<lparr>frame_status = 2, frame_audio = drop audio_offset audio_data\<rparr>"
    have "run audio_data audio_offset status = ?pre @ [?fin]"
      using less.prems True by (simp add: run_unfold)
    moreover have "length ?pre = (length audio_data - audio_offset + 1279) div 1280"
      using less.prems True by simp
    ultimately show ?thesis by (intro exI[of _ ?pre] exI[of _ ?fin]) simp
  next
    case False
    let ?off = "audio_offset + 1280"
    have lt: "?off < length audio_data" using False by simp
    have "length audio_data - ?off < length audio_data - audio_offset" using lt by simp
    from less.hyps[OF this lt, of 1]
    obtain pre fin where r: "run audio_data ?off 1 = pre @ [fin]" "frame_status fin = 2"
      "map frame_status pre = 1 # replicate (length pre - 1) 1"
      "length pre = (length audio_data - ?off + 1279) div 1280"
      "concat (map frame_audio pre) = drop ?off audio_data"
      by auto
    let ?f = "\<lparr>frame_status = status, frame_audio = take 1280 (drop audio_offset audio_data)\<rparr>"
    have pos: "length pre \<ge> 1" using r(4) lt by simp
    have run: "run audio_data audio_offset status = (?f # pre) @ [fin]"
      using less.prems False r(1) by (simp add: run_unfold)
    have st: "map frame_status (?f # pre) = status # replicate (length (?f # pre) - 1) 1"
    proof -
      have "1 # replicate (length pre - 1) (1::nat) = replicate (length pre) 1"
        using pos by (cases "length pre") simp_all
      then show ?thesis using r(3) by simp
    qed
    have len: "length (?f # pre) = (length audio_data - audio_offset + 1279) div 1280"
      using r(4) lt by simp
    have cat: "concat (map frame_audio (?f # pre)) = drop audio_offset audio_data"
    proof -
      have "drop ?off audio_data = drop 1280 (drop audio_offset audio_data)"
        by (simp add: add.commute)
      then have "concat (map frame_audio (?f # pre)) =
          take 1280 (drop audio_offset audio_data) @ drop 1280 (drop audio_offset audio_data)"
        using r(5) by simp
      also have "\<dots> = drop audio_offset audio_data"
        by (rule append_take_drop_id)
      finally show ?thesis .
    qed
    show ?thesis
    proof (intro exI conjI)
      show "run audio_data audio_offset status = (?f # pre) @ [fin]" by (rule run)
      show "frame_status fin = 2" by (rule r(2))
      show "map frame_status (?f # pre) = status # replicate (length (?f # pre) - 1) 1"
        by (rule st)
      show "length (?f # pre) = (length audio_data - audio_offset + 1279) div 1280"
        by (rule len)
      show "concat (map frame_audio (?f # pre)) = drop audio_offset audio_data" by (rule cat)
    qed
  qed
qed

text \<open>
  Claim C2, as the loop is written. For a buffer of length \<open>L > 0\<close> the sender thread
  sends \<open>(L + 1279) div 1280\<close> non-final frames, that is \<open>L / 1280\<close> rounded up: the
  first with the status first, the others with the status continue. Their audio, put
  end to end, is the buffer: every byte is in exactly one non-final frame, in the order
  of the buffer. One final frame with the status last follows them and ends the loop.
\<close>

theorem on_open_frames:
  assumes "audio_data \<noteq> []"
  shows "\<exists>pre fin. on_open audio_data = pre @ [fin]
     \<and> frame_status fin = 2
     \<and> map frame_status pre = 0 # replicate (length pre - 1) 1
     \<and> length pre = (length audio_data + 1279) div 1280
     \<and> concat (map frame_audio pre) = audio_data"
  using run_shape[of 0 audio_data 0] assms
  by (simp add: on_open_def STATUS_FIRST_FRAME_def)

theorem on_open_frames_witness:
  "\<exists>pre fin. on_open [0x2A] = pre @ [fin]
     \<and> frame_status fin = 2
     \<and> map frame_status pre = 0 # replicate (length pre - 1) 1
     \<and> length pre = (length [0x2A :: byte] + 1279) div 1280
     \<and> concat (map frame_audio pre) = [0x2A]"
  using on_open_frames [of "[0x2A]"] by simp

text \<open>
  Claim C2 as stated fails for a buffer of one byte: \<open>1 div 1280 = 0\<close>, and the loop
  sends one non-final frame. The byte is in that frame and again in the final frame.
  A buffer of 1281 bytes gives two non-final frames, of 1280 bytes and of 1 byte, and
  a final frame of 1 byte.
\<close>

theorem on_open_one_byte_counterexample:
  "on_open [0x2A] = [\<lparr>frame_status = 0, frame_audio = [0x2A]\<rparr>,
                     \<lparr>frame_status = 2, frame_audio = [0x2A]\<rparr>]
   \<and> length (filter (\<lambda>f. frame_status f \<noteq> 2) (on_open [0x2A])) = 1
   \<and> length [0x2A :: byte] div 1280 = 0
   \<and> map (\<lambda>f. (frame_status f, length (frame_audio f))) (on_open (replicate 1281 0x2A))
       = [(0, 1280), (1, 1), (2, 1)]"
  by (simp add: on_open_def run.simps STATUS_FIRST_FRAME_def STATUS_CONTINUE_FRAME_def
      STATUS_LAST_FRAME_def frame_size_def Let_def)

lemma run_last_two:
  "audio_offset < length audio_data \<Longrightarrow> status = 0 \<or> status = 1 \<Longrightarrow>
   \<exists>pre f fin. run audio_data audio_offset status = pre @ [f, fin]
     \<and> frame_status f < 2 \<and> frame_status fin = 2
     \<and> frame_audio f \<noteq> [] \<and> frame_audio fin = frame_audio f"
proof (induction "length audio_data - audio_offset" arbitrary: audio_offset status
    rule: less_induct)
  case less
  show ?case
  proof (cases "length audio_data \<le> audio_offset + 1280")
    case True
    let ?f = "\<lparr>frame_status = status, frame_audio = drop audio_offset audio_data\<rparr>"
    let ?fin = "\<lparr>frame_status = 2, frame_audio = drop audio_offset audio_data\<rparr>"
    have "run audio_data audio_offset status = [] @ [?f, ?fin]"
      using less.prems True by (simp add: run_unfold)
    moreover have "frame_status ?f < 2" using less.prems by auto
    moreover have "frame_audio ?f \<noteq> []" using less.prems by simp
    ultimately show ?thesis by (intro exI[of _ "[]"] exI[of _ ?f] exI[of _ ?fin]) simp
  next
    case False
    let ?off = "audio_offset + 1280"
    have lt: "?off < length audio_data" using False by simp
    have "length audio_data - ?off < length audio_data - audio_offset" using lt by simp
    from less.hyps[OF this lt, of 1]
    obtain pre f fin where r: "run audio_data ?off 1 = pre @ [f, fin]"
      "frame_status f < 2" "frame_status fin = 2" "frame_audio f \<noteq> []"
      "frame_audio fin = frame_audio f"
      by auto
    let ?g = "\<lparr>frame_status = status, frame_audio = take 1280 (drop audio_offset audio_data)\<rparr>"
    have "run audio_data audio_offset status = (?g # pre) @ [f, fin]"
      using less.prems False r(1) by (simp add: run_unfold)
    then show ?thesis using r(2-5) by blast
  qed
qed

text \<open>
  The final frame is never empty: for a buffer that is not empty, the loop ends with a
  non-final frame that carries the last chunk and a final frame that carries the same
  chunk again.
\<close>

theorem on_open_final_repeats_last_chunk:
  assumes "audio_data \<noteq> []"
  shows "\<exists>pre f fin. on_open audio_data = pre @ [f, fin]
     \<and> frame_status f < 2 \<and> frame_status fin = 2
     \<and> frame_audio f \<noteq> [] \<and> frame_audio fin = frame_audio f"
  using run_last_two[of 0 audio_data 0] assms
  by (simp add: on_open_def STATUS_FIRST_FRAME_def)

theorem on_open_final_repeats_last_chunk_witness:
  "\<exists>pre f fin. on_open [0x2A] = pre @ [f, fin]
     \<and> frame_status f < 2 \<and> frame_status fin = 2
     \<and> frame_audio f \<noteq> [] \<and> frame_audio fin = frame_audio f"
  using on_open_final_repeats_last_chunk [of "[0x2A]"] by simp

text \<open>For the empty buffer the loop body never runs: no frame is sent, not even a
  final one.\<close>

theorem on_open_empty_buffer: "on_open [] = []"
  by (simp add: on_open_def run.simps)

section \<open>The session and its handlers\<close>







section \<open>transcribe\_audio\<close>

subsection \<open>Missing credentials\<close>

text \<open>
  Claim C6. When the application id, the API key or the API secret is missing (\<open>None\<close>
  or the empty string), \<open>transcribe_audio\<close> returns the failure with the not-configured
  message at once: it takes none of the steps that reach outside the service (no
  conversion, no URL, no connection), the clock has not moved, and the service, with its
  transcript and its two flags, is as it was.
\<close>

theorem transcribe_audio_not_configured:
  assumes "\<not> truthy (app_id self) \<or> \<not> truthy (api_key self) \<or> \<not> truthy (api_secret self)"
  shows "transcribe_audio w self audio_data =
    Some \<lparr>returned = Failure msg_not_configured, service_after = self, actions = [],
          returned_at = clock w\<rparr>"
  using assms by (auto simp: transcribe_audio_def)

text \<open>The finished session with an empty API key, and with no application id.\<close>

theorem transcribe_audio_not_configured_witness:
  "\<not> truthy (api_key (finished_session\<lparr>api_key := Some []\<rparr>))
   \<and> transcribe_audio answering_world (finished_session\<lparr>api_key := Some []\<rparr>) [0x01] =
       Some \<lparr>returned = Failure msg_not_configured,
             service_after = finished_session\<lparr>api_key := Some []\<rparr>, actions = [],
             returned_at = 0\<rparr>
   \<and> map_option returned
         (transcribe_audio answering_world (finished_session\<lparr>app_id := None\<rparr>) [0x01])
       = Some (Failure msg_not_configured)"
  using transcribe_audio_not_configured
      [of "finished_session\<lparr>api_key := Some []\<rparr>" answering_world "[0x01]"]
    transcribe_audio_not_configured
      [of "finished_session\<lparr>app_id := None\<rparr>" answering_world "[0x01]"]
  by (simp add: truthy_def answering_world_def)

subsection \<open>The timeout\<close>






subsection \<open>The successful result\<close>

text \<open>
  Claim C10. Every successful result of \<open>transcribe_audio\<close> has the confidence 0.92
  (the constant of the source, \<open>23 / 25\<close>) and the duration \<open>len(audio_data) / 32000\<close>,
  computed from the length of the bytes the caller passed: neither depends on the
  recognized text, on what the channel delivered or on the decoded audio.
\<close>

theorem success_confidence_duration:
  assumes "transcribe_audio w self audio_data = Some out"
    and "returned out = Success t c d"
  shows "c = 23 / 25 \<and> d = of_nat (length audio_data) / 32000"
  using assms
  by (auto simp: transcribe_audio_def Let_def split: if_splits sum.splits prod.splits)

theorem success_confidence_duration_witness:
  "map_option returned (transcribe_audio answering_world configured_service [0x01, 0x02])
     = Some (Success (asc ''ok'') (23 / 25) (1 / 16000))"
proof -
  have "\<exists>out. transcribe_audio answering_world configured_service [0x01, 0x02] = Some out
          \<and> returned out = Success (asc ''ok'') (23 / 25) (1 / 16000)"
    by (simp add: transcribe_audio_def handler_defs service_defs wait_loop.simps strip_def
        is_space_def Let_def)
  then obtain out where
    out: "transcribe_audio answering_world configured_service [0x01, 0x02] = Some out"
      "returned out = Success (asc ''ok'') (23 / 25) (1 / 16000)"
    by blast
  from success_confidence_duration [OF out] out show ?thesis by simp
qed

subsection \<open>Short audio\<close>

lemma try_formats_None:
  "try_formats p fmts audio_data = None
     \<longleftrightarrow> list_all (\<lambda>fmt. isl (from_file p (Some fmt) audio_data)) fmts"
  by (induction fmts) (auto split: sum.splits)

lemma decode_None:
  "decode p audio_data = None \<longleftrightarrow>
     list_all (\<lambda>fmt. isl (from_file p fmt audio_data)) (map Some formats_to_try @ [None])"
proof (cases "try_formats p formats_to_try audio_data")
  case None
  then have "list_all (\<lambda>fmt. isl (from_file p (Some fmt) audio_data)) formats_to_try"
    by (simp add: try_formats_None)
  then show ?thesis using None
    by (auto simp: decode_def list_all_iff split: sum.splits)
next
  case (Some audio)
  then have "\<not> list_all (\<lambda>fmt. isl (from_file p (Some fmt) audio_data)) formats_to_try"
    using try_formats_None[of p formats_to_try audio_data] by simp
  then show ?thesis using Some
    by (auto simp: decode_def list_all_iff)
qed

text \<open>
  Claim C5, as the code has it. \<open>validate_audio_format\<close> returns false exactly for the
  inputs shorter than 44 bytes. The conversion to PCM does not call it and does not look
  at the length: it returns PCM exactly when pydub is installed, one of the decoding
  attempts (webm, wav, mp3, ogg, mp4, then the auto-detection) succeeds and the first
  decoded audio converts; no attempt succeeds exactly when all six raise. When the
  conversion raises, \<open>transcribe_audio\<close> with configured credentials returns the failure
  with the text of that error after the conversion alone, without a connection and with
  the session as it was.
\<close>

theorem short_audio_rejection:
  "validate_audio_format audio_data = (44 \<le> length audio_data)
   \<and> (convert_audio_to_pcm p audio_data = Inr pcm \<longleftrightarrow>
        PYDUB_AVAILABLE p
        \<and> (\<exists>audio. decode p audio_data = Some audio \<and> to_pcm p audio = Inr pcm))
   \<and> (decode p audio_data = None \<longleftrightarrow>
        list_all (\<lambda>fmt. isl (from_file p fmt audio_data)) (map Some formats_to_try @ [None]))
   \<and> (truthy (app_id self) \<and> truthy (api_key self) \<and> truthy (api_secret self)
        \<and> convert_audio_to_pcm (pydub w) audio_data = Inl e
      \<longrightarrow> transcribe_audio w self audio_data =
            Some \<lparr>returned = Failure (msg_failed @ e), service_after = self,
                  actions = [ConvertAudio], returned_at = clock w\<rparr>)"
proof (intro conjI impI)
  show "validate_audio_format audio_data = (44 \<le> length audio_data)"
    by (auto simp: validate_audio_format_def)
  show "convert_audio_to_pcm p audio_data = Inr pcm \<longleftrightarrow>
        PYDUB_AVAILABLE p
        \<and> (\<exists>audio. decode p audio_data = Some audio \<and> to_pcm p audio = Inr pcm)"
    by (auto simp: convert_audio_to_pcm_def split: option.splits sum.splits)
  show "decode p audio_data = None \<longleftrightarrow>
        list_all (\<lambda>fmt. isl (from_file p fmt audio_data)) (map Some formats_to_try @ [None])"
    by (rule decode_None)
next
  assume "truthy (app_id self) \<and> truthy (api_key self) \<and> truthy (api_secret self)
        \<and> convert_audio_to_pcm (pydub w) audio_data = Inl e"
  then show "transcribe_audio w self audio_data =
            Some \<lparr>returned = Failure (msg_failed @ e), service_after = self,
                  actions = [ConvertAudio], returned_at = clock w\<rparr>"
    by (simp add: transcribe_audio_def)
qed

text \<open>An input of one byte, with the pydub that reads raw samples and with the pydub
  that decodes nothing.\<close>

theorem short_audio_rejection_witness:
  "\<not> validate_audio_format [0x00]
   \<and> convert_audio_to_pcm raw_pydub [0x00] = Inr [0x00]
   \<and> decode deaf_pydub [0x00] = None
   \<and> transcribe_audio (silent_world\<lparr>pydub := deaf_pydub\<rparr>) configured_service [0x00] =
       Some \<lparr>returned = Failure (msg_failed @ msg_convert_failed @ msg_unrecognised),
             service_after = configured_service, actions = [ConvertAudio], returned_at = 0\<rparr>"
  using short_audio_rejection [where audio_data = "[0x00]" and p = raw_pydub and pcm = "[0x00]"
      and w = "silent_world\<lparr>pydub := deaf_pydub\<rparr>" and self = configured_service
      and e = "msg_convert_failed @ msg_unrecognised"]
    short_audio_rejection [where audio_data = "[0x00]" and p = deaf_pydub
      and w = silent_world and self = configured_service]
  by (simp add: service_defs deaf_pydub_def configured_service_def asc_def)

text \<open>
  Claim C5 as stated fails: an input of one byte is shorter than 44 bytes, the
  conversion returns PCM for it when a decoder of pydub accepts it, and the
  transcription goes on to a successful result.
\<close>

theorem short_audio_counterexample:
  "length [0x00 :: byte] < 44
   \<and> convert_audio_to_pcm raw_pydub [0x00] = Inr [0x00]
   \<and> map_option returned (transcribe_audio answering_world configured_service [0x00])
       = Some (Success (asc ''ok'') (23 / 25) (1 / 32000))"
  by (simp add: transcribe_audio_def handler_defs service_defs wait_loop.simps strip_def
      is_space_def Let_def)

end
